theory Spec2Isabelle
  imports Main
begin

section \<open>The agent's command executor\<close>

text \<open>
  A shallow embedding of the command executor of the agent package: the validation
  pipeline, the sliding-window rate limiter, the bounded output writer, the execution
  history and \<open>ExecuteCommand\<close> itself.

  Go strings are byte sequences and are modelled as \<open>string\<close>; Go's \<open>int\<close>, \<open>int64\<close> and
  \<open>time.Duration\<close> are modelled as \<open>int\<close> (no arithmetic of the executor comes near the
  64-bit range: the largest product is 300 seconds in nanoseconds). A \<open>time.Time\<close> is an
  \<open>int\<close> count of nanoseconds, and \<open>a.Sub(b)\<close> is \<open>a - b\<close> (\<open>Sub\<close> saturates only beyond
  292 years). A Go \<open>error\<close> is the \<open>string option\<close> of its message, \<open>None\<close> being \<open>nil\<close>.
\<close>

subsection \<open>The package strings\<close>

definition strings_HasPrefix :: "string \<Rightarrow> string \<Rightarrow> bool" where
  "strings_HasPrefix s prefix = (take (length prefix) s = prefix)"

fun strings_Contains :: "string \<Rightarrow> string \<Rightarrow> bool" where
  "strings_Contains [] substr = (substr = [])"
| "strings_Contains (c # cs) substr =
     (strings_HasPrefix (c # cs) substr \<or> strings_Contains cs substr)"

definition strings_ContainsAny :: "string \<Rightarrow> string \<Rightarrow> bool" where
  "strings_ContainsAny s chars = list_ex (\<lambda>c. List.member chars c) s"

text \<open>\<open>strings.Split(s, sep)\<close> for a separator of one byte.\<close>

fun strings_Split :: "string \<Rightarrow> char \<Rightarrow> string list" where
  "strings_Split [] sep = [[]]"
| "strings_Split (c # cs) sep =
     (if c = sep then [] # strings_Split cs sep
      else (case strings_Split cs sep of
              [] \<Rightarrow> [[c]]
            | w # ws \<Rightarrow> (c # w) # ws))"

subsection \<open>What the executor takes from outside the package\<close>

text \<open>
  The functions of the Go standard library that the executor calls and whose result is
  not determined by the package's own code are parameters of the model, so that every
  theorem holds for each implementation of them.
\<close>

record golib =
  filepath_IsAbs :: "string \<Rightarrow> bool"
  filepath_Dir :: "string \<Rightarrow> string"
  fmt_int :: "int \<Rightarrow> string"
  fmt_Duration :: "int \<Rightarrow> string"
  json_Unmarshal :: "string \<Rightarrow> string list option"
  strings_TrimSpace :: "string \<Rightarrow> string"
  fmt_Sscanf_int :: "string \<Rightarrow> int option"

subsection \<open>Data model\<close>

record CommandRequest =
  Command :: string
  Args :: "string list"
  Timeout :: int
  Workdir :: string
  Env :: "(string \<times> string) list option"

record CommandResponse =
  ExitCode :: int
  Stdout :: string
  Stderr :: string
  Error :: string
  Duration :: int

record CommandHistoryEntry =
  hist_Command :: string
  hist_Args :: "string list"
  hist_Timestamp :: int
  hist_Duration :: int
  hist_ExitCode :: int
  hist_Workdir :: string

text \<open>
  The executor. \<open>whitelist = None\<close> is the nil slice (allow all); \<open>rateLimitTracker\<close> is the
  map from client key to timestamps; \<open>concurrentSemaphore\<close> is the number of tokens that
  the buffered channel currently holds. The two mutexes guard single calls and have no
  counterpart in a sequential model.
\<close>

record CommandExecutor =
  whitelist :: "string list option"
  blacklist :: "string list"
  allowedPaths :: "string list"
  history :: "CommandHistoryEntry list"
  rateLimitTracker :: "string \<rightharpoonup> int list"
  concurrentSemaphore :: nat
  maxOutputSize :: int
  maxConcurrent :: int
  rateLimit :: int
  rateLimitWindow :: int

definition time_Second :: int where
  "time_Second = 1000000000"

definition time_Minute :: int where
  "time_Minute = 60 * time_Second"

subsection \<open>Validation\<close>

definition injectionPatterns :: "string list" where
  "injectionPatterns =
     ['';'', ''|'', ''&'', ''$('', [CHR 0x60], [CHR 0x0A], [CHR 0x0D], [CHR 0x09]]"

definition ValidateCommand :: "golib \<Rightarrow> CommandExecutor \<Rightarrow> string \<Rightarrow> string option" where
  "ValidateCommand lib ce command =
     (case find (\<lambda>dangerous. strings_Contains command dangerous) (blacklist ce) of
        Some dangerous \<Rightarrow> Some (''command contains dangerous pattern: '' @ dangerous)
      | None \<Rightarrow>
     (case find (\<lambda>pattern. strings_Contains command pattern) injectionPatterns of
        Some pattern \<Rightarrow> Some (''command contains injection pattern: '' @ pattern)
      | None \<Rightarrow>
        if filepath_IsAbs lib command \<and>
           \<not> list_ex (\<lambda>path. strings_HasPrefix (filepath_Dir lib command) path) (allowedPaths ce)
        then Some (''command path not in allowed paths: '' @ filepath_Dir lib command)
        else
     (case whitelist ce of
        None \<Rightarrow> None
      | Some allowedCmds \<Rightarrow>
          if list_ex (\<lambda>allowedCmd. command = allowedCmd \<or>
                                    strings_HasPrefix command (allowedCmd @ '' '')) allowedCmds
          then None
          else Some (''command not in whitelist: '' @ command))))"

subsection \<open>Rate limiting\<close>

text \<open>\<open>now\<close> is the value that \<open>time.Now()\<close> returns inside the call.\<close>

definition checkRateLimit ::
  "golib \<Rightarrow> int \<Rightarrow> CommandExecutor \<Rightarrow> string \<Rightarrow> string option \<times> CommandExecutor" where
  "checkRateLimit lib now ce key =
     (let timestamps = (case rateLimitTracker ce key of None \<Rightarrow> [] | Some ts \<Rightarrow> ts);
          validTimestamps = filter (\<lambda>ts. now - ts < rateLimitWindow ce) timestamps
      in if rateLimit ce \<le> int (length validTimestamps)
         then (Some (''rate limit exceeded: '' @ fmt_int lib (rateLimit ce) @
                     '' commands per '' @ fmt_Duration lib (rateLimitWindow ce)), ce)
         else (None, ce\<lparr>rateLimitTracker :=
                           (rateLimitTracker ce)(key \<mapsto> validTimestamps @ [now])\<rparr>))"

subsection \<open>History\<close>

definition addToHistory :: "CommandExecutor \<Rightarrow> CommandHistoryEntry \<Rightarrow> CommandExecutor" where
  "addToHistory ce entry =
     (let h = history ce @ [entry]
      in ce\<lparr>history := (if 100 < length h then drop (length h - 100) h else h)\<rparr>)"

definition GetHistory :: "CommandExecutor \<Rightarrow> int \<Rightarrow> CommandHistoryEntry list" where
  "GetHistory ce limit =
     (let limit' = (if limit \<le> 0 \<or> int (length (history ce)) < limit
                    then int (length (history ce)) else limit);
          start = int (length (history ce)) - limit'
      in drop (nat start) (history ce))"

subsection \<open>The bounded writer\<close>

record limitedWriter =
  writer :: string
  maxSize :: int
  bytesLeft :: int

text \<open>\<open>Write\<close> returns the count \<open>n\<close> and the writer after the call; its error is always nil.\<close>

definition Write :: "limitedWriter \<Rightarrow> string \<Rightarrow> int \<times> limitedWriter" where
  "Write lw p =
     (if bytesLeft lw \<le> 0 then (int (length p), lw)
      else if bytesLeft lw < int (length p) then
        (let n = bytesLeft lw
         in (n, lw\<lparr>writer := writer lw @ take (nat n) p, bytesLeft := 0\<rparr>))
      else (int (length p),
            lw\<lparr>writer := writer lw @ p, bytesLeft := bytesLeft lw - int (length p)\<rparr>))"

text \<open>The successive \<open>Write\<close> calls that a stream makes on its sink.\<close>

fun Write_all :: "limitedWriter \<Rightarrow> string list \<Rightarrow> limitedWriter" where
  "Write_all lw [] = lw"
| "Write_all lw (p # ps) = Write_all (snd (Write lw p)) ps"

definition new_limitedWriter :: "int \<Rightarrow> limitedWriter" where
  "new_limitedWriter cap = \<lparr>writer = [], maxSize = cap, bytesLeft = cap\<rparr>"

subsection \<open>Construction and configuration\<close>

definition default_whitelist :: "string list" where
  "default_whitelist =
     [''/usr/bin/curl'', ''/usr/bin/wget'', ''/bin/ps'', ''/usr/bin/systemctl'',
      ''/bin/hostname'', ''/usr/bin/uptime'', ''/bin/date'', ''/bin/whoami'',
      ''/usr/bin/docker'', ''/usr/local/bin/docker'', ''/bin/cat'', ''/usr/bin/head'',
      ''/usr/bin/tail'', ''/bin/ls'', ''/usr/bin/find'', ''/bin/echo'', ''/bin/pwd'',
      ''/bin/sleep'', ''/usr/bin/env'']"

definition default_allowedPaths :: "string list" where
  "default_allowedPaths = [''/usr/bin'', ''/bin'', ''/usr/local/bin'', ''/usr/sbin'', ''/sbin'']"

definition dangerous_blacklist :: "string list" where
  "dangerous_blacklist =
     [''rm -rf'', ''mkfs'', ''dd '', ''fdisk'', ''parted'', ''shutdown'', ''reboot'', ''halt'',
      ''poweroff'', '':(){:|:&};:'']"

text \<open>
  \<open>getenv\<close> is the package's \<open>GetEnv\<close>, which is not among the sources: \<open>None\<close> when the
  variable is not set. \<open>json_Unmarshal\<close> and \<open>fmt_Sscanf_int\<close> return \<open>None\<close> for an error,
  and the field then keeps its value. Each block of \<open>loadConfig\<close> assigns one field of the
  executor and reads no field that another block assigns, so the function is one update
  of the six fields, in the order of the blocks.
\<close>

definition loadConfig ::
  "golib \<Rightarrow> (string \<Rightarrow> string option) \<Rightarrow> CommandExecutor \<Rightarrow> CommandExecutor" where
  "loadConfig lib getenv ce =
     ce\<lparr>whitelist :=
          (case getenv ''COMMAND_WHITELIST'' of
             Some whitelist' \<Rightarrow>
               if whitelist' = ''allow_all'' then None
               else if strings_HasPrefix whitelist' ''['' then
                 (case json_Unmarshal lib whitelist' of
                    Some commands \<Rightarrow> Some commands
                  | None \<Rightarrow> whitelist ce)
               else Some (map (strings_TrimSpace lib) (strings_Split whitelist' CHR '',''))
           | None \<Rightarrow> Some default_whitelist),
        allowedPaths :=
          (case getenv ''ALLOWED_PATHS'' of
             Some paths \<Rightarrow>
               if strings_HasPrefix paths ''['' then
                 (case json_Unmarshal lib paths of
                    Some pathList \<Rightarrow> pathList
                  | None \<Rightarrow> allowedPaths ce)
               else map (strings_TrimSpace lib) (strings_Split paths CHR '','')
           | None \<Rightarrow> default_allowedPaths),
        blacklist := dangerous_blacklist,
        maxOutputSize :=
          (case getenv ''COMMAND_MAX_OUTPUT'' of
             Some maxSize' \<Rightarrow>
               (case fmt_Sscanf_int lib maxSize' of
                  Some size' \<Rightarrow> size'
                | None \<Rightarrow> maxOutputSize ce)
           | None \<Rightarrow> maxOutputSize ce),
        rateLimit :=
          (case getenv ''COMMAND_RATE_LIMIT'' of
             Some rateLimit' \<Rightarrow>
               (case fmt_Sscanf_int lib rateLimit' of
                  Some limit \<Rightarrow> if 0 < limit then limit else rateLimit ce
                | None \<Rightarrow> rateLimit ce)
           | None \<Rightarrow> rateLimit ce),
        maxConcurrent :=
          (case getenv ''COMMAND_MAX_CONCURRENT'' of
             Some maxConcurrent' \<Rightarrow>
               (case fmt_Sscanf_int lib maxConcurrent' of
                  Some max' \<Rightarrow> if 0 < max' then max' else maxConcurrent ce
                | None \<Rightarrow> maxConcurrent ce)
           | None \<Rightarrow> maxConcurrent ce)\<rparr>"

text \<open>
  The constructor makes a channel of capacity 5 and then sends \<open>maxConcurrent\<close> tokens into
  it. With more than five tokens to send, the sixth send blocks for ever, and the
  constructor does not return: that is the value \<open>None\<close>.
\<close>

definition NewCommandExecutor ::
  "golib \<Rightarrow> (string \<Rightarrow> string option) \<Rightarrow> CommandExecutor option" where
  "NewCommandExecutor lib getenv =
     (let executor = loadConfig lib getenv
            \<lparr>whitelist = None, blacklist = [], allowedPaths = [], history = [],
             rateLimitTracker = Map.empty, concurrentSemaphore = 0,
             maxOutputSize = 1024 * 1024, maxConcurrent = 5, rateLimit = 10,
             rateLimitWindow = time_Minute\<rparr>
      in if 5 < maxConcurrent executor then None
         else Some (executor\<lparr>concurrentSemaphore := nat (maxConcurrent executor)\<rparr>))"

subsection \<open>Execution\<close>

text \<open>
  What \<open>cmd.Run()\<close> can return: nil, an \<open>*exec.ExitError\<close> (with the value of its
  \<open>ExitCode()\<close> and its message), another error for which \<open>os.IsNotExist\<close> holds, or any
  other error. The message is the value of \<open>err.Error()\<close>.
\<close>

datatype exec_error =
    ExitError int string
  | NotExistError string
  | OtherError string

text \<open>
  The command handed to the operating system: path, argument vector, working directory,
  environment (\<open>None\<close> when \<open>cmd.Env\<close> is left nil) and the timeout of the context it
  runs under.
\<close>

record exec_Cmd =
  cmd_Path :: string
  cmd_Args :: "string list"
  cmd_Dir :: string
  cmd_Env :: "string list option"
  cmd_Timeout :: int

text \<open>
  The outcome of one run: the successive chunks that were written to \<open>cmd.Stdout\<close> and to
  \<open>cmd.Stderr\<close>, the error of \<open>Run\<close>, and whether \<open>cmdCtx.Err()\<close> is
  \<open>context.DeadlineExceeded\<close> afterwards.
\<close>

record run_result =
  run_stdout :: "string list"
  run_stderr :: "string list"
  run_err :: "exec_error option"
  ctx_DeadlineExceeded :: bool

text \<open>
  What one call of \<open>ExecuteCommand\<close> reads from its surroundings: the clock at entry, the
  clock inside \<open>checkRateLimit\<close>, \<open>time.Since(startTime)\<close> after the run, the inherited
  environment, and the behaviour of the operating system on a command.
\<close>

record os_oracle =
  now_start :: int
  now_rate :: int
  since_start :: int
  os_Environ :: "string list"
  cmd_Run :: "exec_Cmd \<Rightarrow> run_result"

text \<open>\<open>Duration.Milliseconds\<close>: an integer division that truncates towards zero.\<close>

definition Milliseconds :: "int \<Rightarrow> int" where
  "Milliseconds d = (if d < 0 then - ((- d) div 1000000) else d div 1000000)"

text \<open>
  The loop over \<open>req.Env\<close>: \<open>None\<close> when a name or a value contains a line feed or a
  carriage return, else the environment with the entries appended. Go visits a map in
  no fixed order; the list is the order of the visit.
\<close>

fun append_env :: "(string \<times> string) list \<Rightarrow> string list \<Rightarrow> string list option" where
  "append_env [] env = Some env"
| "append_env ((k, v) # kvs) env =
     (if strings_ContainsAny k [CHR 0x0A, CHR 0x0D] \<or> strings_ContainsAny v [CHR 0x0A, CHR 0x0D]
      then None
      else append_env kvs (env @ [k @ ''='' @ v]))"

definition error_response :: "string \<Rightarrow> CommandResponse" where
  "error_response msg = \<lparr>ExitCode = - 1, Stdout = [], Stderr = [], Error = msg, Duration = 0\<rparr>"

text \<open>
  \<open>ExecuteCommand\<close> returns the response, the executor after the call, and the commands on
  which \<open>cmd.Run()\<close> was invoked during the call (none or one). The deferred release of
  the semaphore is \<open>release\<close>, applied on each return after the acquisition.
\<close>

definition release :: "CommandExecutor \<Rightarrow> CommandExecutor" where
  "release ce = ce\<lparr>concurrentSemaphore := concurrentSemaphore ce + 1\<rparr>"

definition ExecuteCommand ::
  "golib \<Rightarrow> os_oracle \<Rightarrow> CommandExecutor \<Rightarrow> CommandRequest \<Rightarrow> string \<Rightarrow>
   CommandResponse \<times> CommandExecutor \<times> exec_Cmd list" where
  "ExecuteCommand lib os ce req0 clientKey =
     (let startTime = now_start os;
          req1 = (if Timeout req0 \<le> 0 then req0\<lparr>Timeout := 30\<rparr> else req0);
          req = (if 300 < Timeout req1 then req1\<lparr>Timeout := 300\<rparr> else req1)
      in
      case ValidateCommand lib ce (Command req) of
        Some err \<Rightarrow> (error_response (''command validation failed: '' @ err), ce, [])
      | None \<Rightarrow>
      (case checkRateLimit lib (now_rate os) ce clientKey of
        (Some err, ce1) \<Rightarrow> (error_response err, ce1, [])
      | (None, ce1) \<Rightarrow>
      if concurrentSemaphore ce1 = 0
      then (error_response ''maximum concurrent command execution limit reached'', ce1, [])
      else
      (let ce2 = ce1\<lparr>concurrentSemaphore := concurrentSemaphore ce1 - 1\<rparr>
       in
       case (case Env req of
               None \<Rightarrow> Some None
             | Some kvs \<Rightarrow> map_option Some (append_env kvs (os_Environ os))) of
         None \<Rightarrow>
           (error_response ''environment variable contains invalid characters'',
            release ce2, [])
       | Some env \<Rightarrow>
       (let cmd = \<lparr>cmd_Path = Command req, cmd_Args = Command req # Args req,
                   cmd_Dir = (if Workdir req \<noteq> [] then Workdir req else []),
                   cmd_Env = env, cmd_Timeout = Timeout req * time_Second\<rparr>;
            stdoutWriter = new_limitedWriter (maxOutputSize ce2);
            stderrWriter = new_limitedWriter (maxOutputSize ce2);
            r = cmd_Run os cmd;
            duration = since_start os;
            response = \<lparr>ExitCode = 0,
                        Stdout = writer (Write_all stdoutWriter (run_stdout r)),
                        Stderr = writer (Write_all stderrWriter (run_stderr r)),
                        Error = [], Duration = Milliseconds duration\<rparr>;
            response' =
              (case run_err r of
                 None \<Rightarrow> response
               | Some (ExitError code msg) \<Rightarrow>
                   if ctx_DeadlineExceeded r
                   then response\<lparr>ExitCode := - 2, Error := ''command execution timed out''\<rparr>
                   else response\<lparr>ExitCode := code, Error := msg\<rparr>
               | Some (NotExistError msg) \<Rightarrow>
                   response\<lparr>ExitCode := 127, Error := ''command not found''\<rparr>
               | Some (OtherError msg) \<Rightarrow>
                   response\<lparr>ExitCode := - 1, Error := msg\<rparr>);
            ce3 = addToHistory ce2
                    \<lparr>hist_Command = Command req, hist_Args = Args req,
                     hist_Timestamp = startTime, hist_Duration = duration,
                     hist_ExitCode = ExitCode response', hist_Workdir = Workdir req\<rparr>
        in (response', release ce3, [cmd])))))"

section \<open>Vocabulary of the statements\<close>

text \<open>
  The definitions of this section are not functions of the package. They name what the
  package's functions compute at a given point, so that the theorems can say it.
\<close>

text \<open>The timestamps recorded for a key; a key that is absent has the nil slice.\<close>

definition timestamps_of :: "CommandExecutor \<Rightarrow> string \<Rightarrow> int list" where
  "timestamps_of ce key = (case rateLimitTracker ce key of None \<Rightarrow> [] | Some ts \<Rightarrow> ts)"

text \<open>
  A burst: successive calls of \<open>checkRateLimit\<close> with one key, at the given clock values.
  The result lists the errors of the calls, in order.
\<close>

fun checkRateLimits ::
  "golib \<Rightarrow> CommandExecutor \<Rightarrow> string \<Rightarrow> int list \<Rightarrow> string option list \<times> CommandExecutor" where
  "checkRateLimits lib ce key [] = ([], ce)"
| "checkRateLimits lib ce key (now # nows) =
     (let (err, ce1) = checkRateLimit lib now ce key;
          (errs, ce2) = checkRateLimits lib ce1 key nows
      in (err # errs, ce2))"

text \<open>
  An attempt reaches the execution stage when none of the four gates of
  \<open>ExecuteCommand\<close> refuses it: validation, rate limit, semaphore, environment.
\<close>

definition reaches_execution ::
  "golib \<Rightarrow> os_oracle \<Rightarrow> CommandExecutor \<Rightarrow> CommandRequest \<Rightarrow> string \<Rightarrow> bool" where
  "reaches_execution lib os ce req clientKey =
     (ValidateCommand lib ce (Command req) = None \<and>
      fst (checkRateLimit lib (now_rate os) ce clientKey) = None \<and>
      0 < concurrentSemaphore ce \<and>
      (case Env req of None \<Rightarrow> True
       | Some kvs \<Rightarrow> append_env kvs (os_Environ os) \<noteq> None))"

definition clamp_timeout :: "int \<Rightarrow> int" where
  "clamp_timeout t = (if t \<le> 0 then 30 else if 300 < t then 300 else t)"

text \<open>The environment, the command, the response and the history entry of a run.\<close>

definition the_env :: "os_oracle \<Rightarrow> CommandRequest \<Rightarrow> string list option" where
  "the_env os req =
     (case Env req of None \<Rightarrow> None | Some kvs \<Rightarrow> append_env kvs (os_Environ os))"

definition the_cmd :: "CommandRequest \<Rightarrow> string list option \<Rightarrow> exec_Cmd" where
  "the_cmd req env =
     \<lparr>cmd_Path = Command req, cmd_Args = Command req # Args req, cmd_Dir = Workdir req,
      cmd_Env = env, cmd_Timeout = clamp_timeout (Timeout req) * time_Second\<rparr>"

definition the_response :: "int \<Rightarrow> int \<Rightarrow> run_result \<Rightarrow> CommandResponse" where
  "the_response cap duration r =
     \<lparr>ExitCode =
        (case run_err r of
           None \<Rightarrow> 0
         | Some (ExitError code msg) \<Rightarrow> if ctx_DeadlineExceeded r then - 2 else code
         | Some (NotExistError msg) \<Rightarrow> 127
         | Some (OtherError msg) \<Rightarrow> - 1),
      Stdout = writer (Write_all (new_limitedWriter cap) (run_stdout r)),
      Stderr = writer (Write_all (new_limitedWriter cap) (run_stderr r)),
      Error =
        (case run_err r of
           None \<Rightarrow> []
         | Some (ExitError code msg) \<Rightarrow>
             if ctx_DeadlineExceeded r then ''command execution timed out'' else msg
         | Some (NotExistError msg) \<Rightarrow> ''command not found''
         | Some (OtherError msg) \<Rightarrow> msg),
      Duration = Milliseconds duration\<rparr>"

definition the_entry :: "os_oracle \<Rightarrow> CommandRequest \<Rightarrow> int \<Rightarrow> CommandHistoryEntry" where
  "the_entry os req code =
     \<lparr>hist_Command = Command req, hist_Args = Args req, hist_Timestamp = now_start os,
      hist_Duration = since_start os, hist_ExitCode = code, hist_Workdir = Workdir req\<rparr>"

text \<open>The last \<open>n\<close> elements of a list, in the order of the list.\<close>

definition most_recent :: "nat \<Rightarrow> 'a list \<Rightarrow> 'a list" where
  "most_recent n xs = drop (length xs - n) xs"

text \<open>Successive calls of \<open>ExecuteCommand\<close> on one executor.\<close>

fun ExecuteCommands ::
  "golib \<Rightarrow> CommandExecutor \<Rightarrow> (os_oracle \<times> CommandRequest \<times> string) list \<Rightarrow>
   CommandExecutor" where
  "ExecuteCommands lib ce [] = ce"
| "ExecuteCommands lib ce ((os, req, clientKey) # calls) =
     ExecuteCommands lib (fst (snd (ExecuteCommand lib os ce req clientKey))) calls"

section \<open>Concrete inputs\<close>

text \<open>
  Inputs on which the model is evaluated. \<open>example_lib\<close> is one instance of the library
  parameters: \<open>filepath_IsAbs\<close> as on Unix; \<open>plain_Dir\<close> for \<open>filepath.Dir\<close>, which agrees
  with it on the paths used here (no \<open>.\<close>, no \<open>..\<close>, no repeated or trailing separator);
  the decimal numeral for \<open>%d\<close>; the rendering \<open>1m0s\<close> of one minute, which is the window
  of every executor below; and a JSON decoder and a scanner that reject every input,
  which the environments below never reach.
  \<open>default_executor\<close> is what the constructor returns when no variable of the environment
  is set; \<open>example_os r\<close> is a system on which every run has the outcome \<open>r\<close>.
\<close>

definition plain_Dir :: "string \<Rightarrow> string" where
  "plain_Dir path =
     (let dir = rev (dropWhile (\<lambda>c. c \<noteq> CHR ''/'') (rev path))
      in if dir = [] then ''.'' else if dir = ''/'' then ''/'' else butlast dir)"

fun decimal :: "nat \<Rightarrow> string" where
  "decimal n =
     (if n < 10 then [''0123456789'' ! n]
      else decimal (n div 10) @ [''0123456789'' ! (n mod 10)])"

declare decimal.simps [simp del]

definition decimal_int :: "int \<Rightarrow> string" where
  "decimal_int i = (if i < 0 then ''-'' @ decimal (nat (- i)) else decimal (nat i))"

definition example_lib :: golib where
  "example_lib =
     \<lparr>filepath_IsAbs = (\<lambda>path. strings_HasPrefix path ''/''),
      filepath_Dir = plain_Dir,
      fmt_int = decimal_int,
      fmt_Duration = (\<lambda>d. ''1m0s''),
      json_Unmarshal = (\<lambda>s. None),
      strings_TrimSpace = (\<lambda>s. s),
      fmt_Sscanf_int = (\<lambda>s. None)\<rparr>"

definition example_os :: "run_result \<Rightarrow> os_oracle" where
  "example_os r =
     \<lparr>now_start = 0, now_rate = 1000, since_start = 2500000,
      os_Environ = [''PATH=/usr/bin:/bin''], cmd_Run = (\<lambda>cmd. r)\<rparr>"

definition echo_result :: run_result where
  "echo_result = \<lparr>run_stdout = [''hi'', [CHR 0x0A]], run_stderr = [], run_err = None,
                   ctx_DeadlineExceeded = False\<rparr>"

definition default_executor :: CommandExecutor where
  "default_executor =
     \<lparr>whitelist = Some default_whitelist, blacklist = dangerous_blacklist,
      allowedPaths = default_allowedPaths, history = [], rateLimitTracker = Map.empty,
      concurrentSemaphore = 5, maxOutputSize = 1024 * 1024, maxConcurrent = 5,
      rateLimit = 10, rateLimitWindow = time_Minute\<rparr>"

definition example_request :: "string \<Rightarrow> CommandRequest" where
  "example_request command =
     \<lparr>Command = command, Args = [], Timeout = 0, Workdir = [], Env = None\<rparr>"

definition example_entry :: CommandHistoryEntry where
  "example_entry = the_entry (example_os echo_result) (example_request ''/bin/echo'') 0"

text \<open>
  One more outcome of a run (a run killed at its deadline), an executor with a rate limit
  of 2 whose key \<open>default\<close> has one timestamp 100 seconds before time 0, and an environment
  that sets \<open>COMMAND_WHITELIST\<close> to \<open>allow_all\<close>.
\<close>

definition timeout_result :: run_result where
  "timeout_result = \<lparr>run_stdout = [], run_stderr = [],
                      run_err = Some (ExitError (- 1) ''signal: killed''),
                      ctx_DeadlineExceeded = True\<rparr>"

text \<open>
  A host on which no executable exists, as \<open>os/exec\<close> reports it. For a name with a
  separator, \<open>cmd.Run()\<close> fails in \<open>fork/exec\<close> with a \<open>*PathError\<close> that wraps \<open>ENOENT\<close>, and
  \<open>os.IsNotExist\<close> holds for it. For a bare name, \<open>exec.CommandContext\<close> looks the name up
  in \<open>PATH\<close>, and \<open>cmd.Run()\<close> returns the \<open>*exec.Error\<close> of the failed lookup, which is no
  \<open>*exec.ExitError\<close> and for which \<open>os.IsNotExist\<close> does not hold.
\<close>

definition empty_host :: os_oracle where
  "empty_host =
     \<lparr>now_start = 0, now_rate = 1000, since_start = 2500000,
      os_Environ = [''PATH=/usr/bin:/bin''],
      cmd_Run = (\<lambda>cmd.
        \<lparr>run_stdout = [], run_stderr = [],
         run_err = Some
           (if list_ex (\<lambda>c. c = CHR ''/'') (cmd_Path cmd)
            then NotExistError
                   (''fork/exec '' @ cmd_Path cmd @ '': no such file or directory'')
            else OtherError
                   (''exec: '' @ [CHR 0x22] @ cmd_Path cmd @ [CHR 0x22] @
                    '': executable file not found in $PATH'')),
         ctx_DeadlineExceeded = False\<rparr>)\<rparr>"

definition expired_executor :: CommandExecutor where
  "expired_executor =
     default_executor\<lparr>rateLimit := 2,
                       rateLimitTracker := [''default'' \<mapsto> [- 100 * time_Second]]\<rparr>"

definition allow_all_env :: "string \<Rightarrow> string option" where
  "allow_all_env name = (if name = ''COMMAND_WHITELIST'' then Some ''allow_all'' else None)"

section \<open>Properties\<close>

subsection \<open>Auxiliary facts\<close>

lemma find_None_list_ex: "(find P xs = None) = (\<not> list_ex P xs)"
  by (auto simp: find_None_iff list_ex_iff)

lemma find_Some_list_ex: "find P xs = Some x \<Longrightarrow> list_ex P xs"
  using find_None_list_ex [of P xs] by simp

lemma checkRateLimit_semaphore:
  "concurrentSemaphore (snd (checkRateLimit lib now ce key)) = concurrentSemaphore ce"
  by (simp add: checkRateLimit_def Let_def)

lemma checkRateLimit_history:
  "history (snd (checkRateLimit lib now ce key)) = history ce"
  by (simp add: checkRateLimit_def Let_def)

lemma checkRateLimit_maxOutputSize:
  "maxOutputSize (snd (checkRateLimit lib now ce key)) = maxOutputSize ce"
  by (simp add: checkRateLimit_def Let_def)

lemma ExecuteCommand_invalid:
  assumes "ValidateCommand lib ce (Command req) = Some err"
  shows "ExecuteCommand lib os ce req key =
           (error_response (''command validation failed: '' @ err), ce, [])"
  using assms by (simp add: ExecuteCommand_def Let_def)

lemma ExecuteCommand_rate_limited:
  assumes "ValidateCommand lib ce (Command req) = None"
    and "checkRateLimit lib (now_rate os) ce key = (Some err, ce1)"
  shows "ExecuteCommand lib os ce req key = (error_response err, ce1, [])"
  using assms by (simp add: ExecuteCommand_def Let_def)

lemma ExecuteCommand_busy:
  assumes "ValidateCommand lib ce (Command req) = None"
    and "checkRateLimit lib (now_rate os) ce key = (None, ce1)"
    and "concurrentSemaphore ce1 = 0"
  shows "ExecuteCommand lib os ce req key =
           (error_response ''maximum concurrent command execution limit reached'', ce1, [])"
  using assms by (simp add: ExecuteCommand_def Let_def)

lemma ExecuteCommand_bad_env:
  assumes "ValidateCommand lib ce (Command req) = None"
    and "checkRateLimit lib (now_rate os) ce key = (None, ce1)"
    and "0 < concurrentSemaphore ce1"
    and "Env req = Some kvs" and "append_env kvs (os_Environ os) = None"
  shows "ExecuteCommand lib os ce req key =
           (error_response ''environment variable contains invalid characters'',
            release (ce1\<lparr>concurrentSemaphore := concurrentSemaphore ce1 - 1\<rparr>), [])"
  using assms by (simp add: ExecuteCommand_def Let_def)

lemma Write_all_writer:
  "writer (Write_all lw ps) = writer lw @ take (nat (bytesLeft lw)) (concat ps)"
proof (induction ps arbitrary: lw)
  case Nil
  then show ?case by simp
next
  case (Cons p ps)
  show ?case
    by (simp add: Cons.IH Write_def Let_def nat_diff_distrib')
qed

lemma ValidateCommand_fails_iff:
  "ValidateCommand lib ce command \<noteq> None \<longleftrightarrow>
     list_ex (strings_Contains command) (blacklist ce) \<or>
     list_ex (strings_Contains command) injectionPatterns \<or>
     (filepath_IsAbs lib command \<and>
      \<not> list_ex (strings_HasPrefix (filepath_Dir lib command)) (allowedPaths ce)) \<or>
     (\<exists>wl. whitelist ce = Some wl \<and>
       \<not> list_ex (\<lambda>a. command = a \<or> strings_HasPrefix command (a @ '' '')) wl)"
proof (cases "find (strings_Contains command) (blacklist ce)")
  case (Some d)
  then show ?thesis
    by (simp add: ValidateCommand_def find_Some_list_ex)
next
  case None
  note b = this
  then have nb: "\<not> list_ex (strings_Contains command) (blacklist ce)"
    by (simp add: find_None_list_ex)
  show ?thesis
  proof (cases "find (strings_Contains command) injectionPatterns")
    case (Some p)
    then show ?thesis
      unfolding ValidateCommand_def b by (simp add: find_Some_list_ex)
  next
    case None
    then have ni: "\<not> list_ex (strings_Contains command) injectionPatterns"
      by (simp add: find_None_list_ex)
    show ?thesis
      unfolding ValidateCommand_def b None
      by (cases "whitelist ce") (simp_all add: nb ni)
  qed
qed

lemma clamped_req:
  "(if 300 < Timeout (if Timeout req \<le> 0 then req\<lparr>Timeout := 30\<rparr> else req)
    then (if Timeout req \<le> 0 then req\<lparr>Timeout := 30\<rparr> else req)\<lparr>Timeout := 300\<rparr>
    else (if Timeout req \<le> 0 then req\<lparr>Timeout := 30\<rparr> else req))
   = req\<lparr>Timeout := clamp_timeout (Timeout req)\<rparr>"
  by (simp add: clamp_timeout_def)

lemma ExecuteCommand_run:
  assumes v: "ValidateCommand lib ce (Command req) = None"
    and r: "checkRateLimit lib (now_rate os) ce key = (None, ce1)"
    and s: "0 < concurrentSemaphore ce1"
    and e: "Env req = None \<or> the_env os req \<noteq> None"
  shows "ExecuteCommand lib os ce req key =
           (the_response (maxOutputSize ce) (since_start os)
              (cmd_Run os (the_cmd req (the_env os req))),
            release (addToHistory (ce1\<lparr>concurrentSemaphore := concurrentSemaphore ce1 - 1\<rparr>)
              \<lparr>hist_Command = Command req, hist_Args = Args req,
               hist_Timestamp = now_start os, hist_Duration = since_start os,
               hist_ExitCode = ExitCode (the_response (maxOutputSize ce) (since_start os)
                  (cmd_Run os (the_cmd req (the_env os req)))),
               hist_Workdir = Workdir req\<rparr>),
            [the_cmd req (the_env os req)])"
proof -
  have m: "maxOutputSize ce1 = maxOutputSize ce"
    using checkRateLimit_maxOutputSize [of lib "now_rate os" ce key] r by simp
  have env: "(case Env req of None \<Rightarrow> Some None
              | Some kvs \<Rightarrow> map_option Some (append_env kvs (os_Environ os)))
             = Some (the_env os req)"
    using e by (auto simp: the_env_def split: option.splits)
  have cmd: "\<lparr>cmd_Path = Command req, cmd_Args = Command req # Args req,
              cmd_Dir = (if Workdir req \<noteq> [] then Workdir req else []),
              cmd_Env = the_env os req,
              cmd_Timeout = clamp_timeout (Timeout req) * time_Second\<rparr>
             = the_cmd req (the_env os req)"
    by (simp add: the_cmd_def)
  show ?thesis
    unfolding ExecuteCommand_def Let_def clamped_req
    using s
    by (simp add: v r env m the_cmd_def the_response_def split: option.split exec_error.split)
qed

lemma history_addToHistory:
  "history (addToHistory ce entry) =
     drop (Suc (length (history ce)) - 100) (history ce @ [entry])"
  by (simp add: addToHistory_def Let_def)

lemma length_history_addToHistory: "length (history (addToHistory ce entry)) \<le> 100"
  by (simp add: addToHistory_def Let_def)

lemma history_release: "history (release ce) = history ce"
  by (simp add: release_def)

lemma ExecuteCommand_executed:
  assumes "reaches_execution lib os ce req key"
  shows "ExecuteCommand lib os ce req key =
           (the_response (maxOutputSize ce) (since_start os)
              (cmd_Run os (the_cmd req (the_env os req))),
            release (addToHistory
              ((snd (checkRateLimit lib (now_rate os) ce key))
                 \<lparr>concurrentSemaphore := concurrentSemaphore ce - 1\<rparr>)
              (the_entry os req (ExitCode (the_response (maxOutputSize ce) (since_start os)
                  (cmd_Run os (the_cmd req (the_env os req))))))),
            [the_cmd req (the_env os req)])"
proof -
  let ?ce1 = "snd (checkRateLimit lib (now_rate os) ce key)"
  have v: "ValidateCommand lib ce (Command req) = None"
    using assms by (simp add: reaches_execution_def)
  have r: "checkRateLimit lib (now_rate os) ce key = (None, ?ce1)"
    using assms by (simp add: reaches_execution_def prod_eq_iff)
  have c: "concurrentSemaphore ?ce1 = concurrentSemaphore ce"
    by (rule checkRateLimit_semaphore)
  have s: "0 < concurrentSemaphore ?ce1"
    using assms c by (simp add: reaches_execution_def)
  have e: "Env req = None \<or> the_env os req \<noteq> None"
    using assms by (auto simp: reaches_execution_def the_env_def split: option.splits)
  show ?thesis
    using ExecuteCommand_run [OF v r s e] c by (simp add: the_entry_def)
qed

lemma ExecuteCommand_refused:
  assumes "\<not> reaches_execution lib os ce req key"
  shows "\<exists>msg ce'. ExecuteCommand lib os ce req key = (error_response msg, ce', []) \<and>
           history ce' = history ce"
proof (cases "ValidateCommand lib ce (Command req)")
  case (Some err)
  show ?thesis
    using ExecuteCommand_invalid [OF Some, of os key] by blast
next
  case None
  note v = this
  let ?ce1 = "snd (checkRateLimit lib (now_rate os) ce key)"
  have h: "history ?ce1 = history ce"
    by (rule checkRateLimit_history)
  have c: "concurrentSemaphore ?ce1 = concurrentSemaphore ce"
    by (rule checkRateLimit_semaphore)
  show ?thesis
  proof (cases "fst (checkRateLimit lib (now_rate os) ce key)")
    case (Some err)
    then have "checkRateLimit lib (now_rate os) ce key = (Some err, ?ce1)"
      by (simp add: prod_eq_iff)
    then show ?thesis
      using h ExecuteCommand_rate_limited [OF v] by blast
  next
    case None
    then have r: "checkRateLimit lib (now_rate os) ce key = (None, ?ce1)"
      by (simp add: prod_eq_iff)
    show ?thesis
    proof (cases "concurrentSemaphore ce = 0")
      case True
      then have "concurrentSemaphore ?ce1 = 0"
        using c by simp
      then show ?thesis
        using h ExecuteCommand_busy [OF v r] by blast
    next
      case False
      then have s: "0 < concurrentSemaphore ?ce1"
        using c by simp
      from assms v None False obtain kvs where
        k: "Env req = Some kvs" and a: "append_env kvs (os_Environ os) = None"
        by (auto simp: reaches_execution_def split: option.splits)
      show ?thesis
        using h ExecuteCommand_bad_env [OF v r s k a] by (fastforce simp: history_release)
    qed
  qed
qed

lemma checkRateLimit_passes_iff:
  "fst (checkRateLimit lib now ce key) = None \<longleftrightarrow>
     int (length (filter (\<lambda>ts. now - ts < rateLimitWindow ce) (timestamps_of ce key)))
       < rateLimit ce"
  by (simp add: checkRateLimit_def timestamps_of_def Let_def)

lemma checkRateLimit_pass_state:
  assumes "fst (checkRateLimit lib now ce key) = None"
  shows "snd (checkRateLimit lib now ce key) =
           ce\<lparr>rateLimitTracker := (rateLimitTracker ce)(key \<mapsto>
                filter (\<lambda>ts. now - ts < rateLimitWindow ce) (timestamps_of ce key) @ [now])\<rparr>"
  using assms by (simp add: checkRateLimit_def timestamps_of_def Let_def split: if_splits)

lemma checkRateLimit_reject_state:
  assumes "fst (checkRateLimit lib now ce key) \<noteq> None"
  shows "snd (checkRateLimit lib now ce key) = ce"
  using assms by (simp add: checkRateLimit_def timestamps_of_def Let_def split: if_splits)

lemma filter_pointwise:
  assumes "\<And>x. x \<in> set xs \<Longrightarrow> P x = Q x"
  shows "filter P xs = filter Q xs"
  using assms by (induction xs) auto

lemma burst_general:
  assumes inv: "\<forall>ts \<in> set (timestamps_of ce key).
                  (\<forall>t \<in> T. t - ts < rateLimitWindow ce) \<or> (\<forall>t \<in> T. \<not> t - ts < rateLimitWindow ce)"
    and sub: "set nows \<subseteq> T"
    and win: "\<forall>t \<in> T. \<forall>t' \<in> T. t - t' < rateLimitWindow ce"
  shows "map (\<lambda>e. e = None) (fst (checkRateLimits lib ce key nows)) =
           replicate (min (length nows)
              (nat (rateLimit ce) -
               length (filter (\<lambda>ts. \<forall>t \<in> T. t - ts < rateLimitWindow ce) (timestamps_of ce key))))
             True @
           replicate (length nows -
              (nat (rateLimit ce) -
               length (filter (\<lambda>ts. \<forall>t \<in> T. t - ts < rateLimitWindow ce) (timestamps_of ce key))))
             False"
  using inv sub win
proof (induction nows arbitrary: ce)
  case Nil
  then show ?case by simp
next
  case (Cons now nows)
  let ?W = "rateLimitWindow ce"
  let ?live = "\<lambda>ts. \<forall>t \<in> T. t - ts < ?W"
  let ?stamps = "timestamps_of ce key"
  let ?valid = "filter (\<lambda>ts. now - ts < ?W) ?stamps"
  let ?ce1 = "snd (checkRateLimit lib now ce key)"
  have nowT: "now \<in> T" using Cons.prems(2) by simp
  have sub': "set nows \<subseteq> T" using Cons.prems(2) by simp
  have valid: "?valid = filter ?live ?stamps"
  proof (rule filter_pointwise)
    fix x assume "x \<in> set ?stamps"
    then show "(now - x < ?W) = ?live x"
      using Cons.prems(1) nowT by blast
  qed
  have step: "fst (checkRateLimits lib ce key (now # nows)) =
                fst (checkRateLimit lib now ce key) # fst (checkRateLimits lib ?ce1 key nows)"
    by (simp add: split_beta Let_def)
  show ?case
  proof (cases "fst (checkRateLimit lib now ce key) = None")
    case True
    then have lt: "int (length (filter ?live ?stamps)) < rateLimit ce"
      using checkRateLimit_passes_iff [of lib now ce key] valid by simp
    have ce1: "?ce1 = ce\<lparr>rateLimitTracker := (rateLimitTracker ce)(key \<mapsto> ?valid @ [now])\<rparr>"
      using checkRateLimit_pass_state [OF True] .
    have W1: "rateLimitWindow ?ce1 = ?W" and N1: "rateLimit ?ce1 = rateLimit ce"
      and st1: "timestamps_of ?ce1 key = filter ?live ?stamps @ [now]"
      using ce1 valid by (simp_all add: timestamps_of_def)
    have livenow: "?live now"
      using Cons.prems(3) nowT by blast
    have inv1: "\<forall>ts \<in> set (timestamps_of ?ce1 key).
                  (\<forall>t \<in> T. t - ts < rateLimitWindow ?ce1) \<or>
                  (\<forall>t \<in> T. \<not> t - ts < rateLimitWindow ?ce1)"
      unfolding st1 W1 using livenow by auto
    have win1: "\<forall>t \<in> T. \<forall>t' \<in> T. t - t' < rateLimitWindow ?ce1"
      unfolding W1 using Cons.prems(3) .
    have live1: "length (filter (\<lambda>ts. \<forall>t \<in> T. t - ts < rateLimitWindow ?ce1)
                   (timestamps_of ?ce1 key)) = Suc (length (filter ?live ?stamps))"
      unfolding st1 W1 using livenow by simp
    have IH: "map (\<lambda>e. e = None) (fst (checkRateLimits lib ?ce1 key nows)) =
                replicate (min (length nows)
                   (nat (rateLimit ce) - Suc (length (filter ?live ?stamps)))) True @
                replicate (length nows -
                   (nat (rateLimit ce) - Suc (length (filter ?live ?stamps)))) False"
      using Cons.IH [OF inv1 sub' win1] unfolding live1 N1 .
    obtain d where d: "nat (rateLimit ce) - length (filter ?live ?stamps) = Suc d"
      using lt by (cases "nat (rateLimit ce) - length (filter ?live ?stamps)") auto
    then have d': "nat (rateLimit ce) - Suc (length (filter ?live ?stamps)) = d"
      by simp
    show ?thesis
      unfolding step using True IH by (simp add: d d')
  next
    case False
    then have ge: "rateLimit ce \<le> int (length (filter ?live ?stamps))"
      using checkRateLimit_passes_iff [of lib now ce key] valid by simp
    then have z: "nat (rateLimit ce) - length (filter ?live ?stamps) = 0"
      by simp
    have ce1: "?ce1 = ce"
      using checkRateLimit_reject_state [OF False] .
    have IH: "map (\<lambda>e. e = None) (fst (checkRateLimits lib ce key nows)) =
                replicate (length nows) False"
      using Cons.IH [OF Cons.prems(1) sub' Cons.prems(3)] by (simp add: z)
    show ?thesis
      unfolding step ce1 using False IH by (simp add: z)
  qed
qed

lemma NewCommandExecutor_default: "NewCommandExecutor lib (\<lambda>name. None) = Some default_executor"
  by (simp add: NewCommandExecutor_def loadConfig_def default_executor_def)

lemma ExecuteCommand_response:
  "fst (ExecuteCommand lib os ce req key) =
     (if reaches_execution lib os ce req key
      then the_response (maxOutputSize ce) (since_start os)
             (cmd_Run os (the_cmd req (the_env os req)))
      else error_response (Error (fst (ExecuteCommand lib os ce req key))))"
proof (cases "reaches_execution lib os ce req key")
  case True
  then show ?thesis by (simp add: ExecuteCommand_executed)
next
  case False
  from ExecuteCommand_refused [OF False] obtain msg ce' where
    "ExecuteCommand lib os ce req key = (error_response msg, ce', [])"
    by blast
  then show ?thesis
    using False by (simp add: error_response_def)
qed

lemma length_writer_new:
  "length (writer (Write_all (new_limitedWriter cap) ps)) \<le> nat cap"
  by (simp add: Write_all_writer new_limitedWriter_def)

lemma history_loadConfig: "history (loadConfig lib getenv ce) = history ce"
  by (simp add: loadConfig_def)

lemma blacklist_loadConfig: "blacklist (loadConfig lib getenv ce) = dangerous_blacklist"
  by (simp add: loadConfig_def)

lemma length_most_recent: "length (most_recent n xs) \<le> n"
  unfolding most_recent_def length_drop by arith

lemma NewCommandExecutor_history:
  assumes "NewCommandExecutor lib getenv = Some ce"
  shows "history ce = []"
  using assms
  by (auto simp: NewCommandExecutor_def Let_def history_loadConfig split: if_splits)

lemma NewCommandExecutor_blacklist:
  assumes "NewCommandExecutor lib getenv = Some ce"
  shows "blacklist ce = dangerous_blacklist"
  using assms
  by (auto simp: NewCommandExecutor_def Let_def blacklist_loadConfig split: if_splits)

lemma ExecuteCommand_history:
  "history (fst (snd (ExecuteCommand lib os ce req key))) =
     (if reaches_execution lib os ce req key
      then most_recent 100
             (history ce @ [the_entry os req (ExitCode (fst (ExecuteCommand lib os ce req key)))])
      else history ce)"
proof (cases "reaches_execution lib os ce req key")
  case True
  then show ?thesis
    by (simp add: ExecuteCommand_executed history_release history_addToHistory
        checkRateLimit_history most_recent_def)
next
  case False
  from ExecuteCommand_refused [OF False] show ?thesis
    using False by auto
qed

lemma ExecuteCommand_history_bound:
  assumes "length (history ce) \<le> 100"
  shows "length (history (fst (snd (ExecuteCommand lib os ce req key)))) \<le> 100"
  using assms by (simp add: ExecuteCommand_history length_most_recent)

lemma ExecuteCommands_history_bound:
  assumes "length (history ce) \<le> 100"
  shows "length (history (ExecuteCommands lib ce calls)) \<le> 100"
  using assms
proof (induction calls arbitrary: ce)
  case Nil
  then show ?case by simp
next
  case (Cons call calls)
  obtain os req key where c: "call = (os, req, key)"
    by (cases call) auto
  show ?case
    unfolding c using Cons.IH [OF ExecuteCommand_history_bound [OF Cons.prems]] by simp
qed

lemma ExecuteCommand_runs:
  "snd (snd (ExecuteCommand lib os ce req key)) =
     (if reaches_execution lib os ce req key then [the_cmd req (the_env os req)] else [])"
proof (cases "reaches_execution lib os ce req key")
  case True
  then show ?thesis by (simp add: ExecuteCommand_executed)
next
  case False
  from ExecuteCommand_refused [OF False] show ?thesis
    using False by auto
qed

lemma Validate_injection_example:
  "ValidateCommand lib ce ''/bin/ls; rm -rf /'' =
     Some ''command contains dangerous pattern: rm -rf''"
  if "blacklist ce = dangerous_blacklist"
  by (simp add: ValidateCommand_def that dangerous_blacklist_def strings_HasPrefix_def)

lemmas example_defs =
  decimal_int_def decimal.simps default_executor_def dangerous_blacklist_def default_allowedPaths_def default_whitelist_def
  injectionPatterns_def example_lib_def plain_Dir_def example_request_def example_os_def
  strings_HasPrefix_def time_Minute_def time_Second_def

lemma reaches_echo:
  "reaches_execution example_lib (example_os r) default_executor
     (example_request ''/bin/echo'') ''default''"
  by (simp add: reaches_execution_def ValidateCommand_def checkRateLimit_def example_defs)

subsection \<open>Validation failures (C1)\<close>

text \<open>
  Claim C1. Let the command of a request fail validation: it contains a substring of the
  blacklist, or one of the injection patterns, or it is absolute and no allowed path is a
  prefix of its directory, or the whitelist is a list and no entry of it equals the
  command or is followed by a space in it. Then \<open>ValidateCommand\<close> returns an error, and
  \<open>ExecuteCommand\<close> returns the response with exit code \<open>-1\<close>, empty output and the error
  \<open>command validation failed: \<close> followed by the reason; the executor is unchanged and
  \<open>cmd.Run()\<close> is invoked on no command.
\<close>

theorem C1_validation_failure_is_refused:
  assumes "list_ex (strings_Contains (Command req)) (blacklist ce) \<or>
           list_ex (strings_Contains (Command req)) injectionPatterns \<or>
           (filepath_IsAbs lib (Command req) \<and>
            \<not> list_ex (strings_HasPrefix (filepath_Dir lib (Command req))) (allowedPaths ce)) \<or>
           (\<exists>wl. whitelist ce = Some wl \<and>
             \<not> list_ex (\<lambda>a. Command req = a \<or> strings_HasPrefix (Command req) (a @ '' '')) wl)"
  shows "\<exists>reason. ValidateCommand lib ce (Command req) = Some reason \<and>
           ExecuteCommand lib os ce req clientKey =
             (\<lparr>ExitCode = - 1, Stdout = [], Stderr = [],
               Error = ''command validation failed: '' @ reason, Duration = 0\<rparr>, ce, [])"
proof -
  from assms have "ValidateCommand lib ce (Command req) \<noteq> None"
    by (simp only: ValidateCommand_fails_iff)
  then obtain reason where r: "ValidateCommand lib ce (Command req) = Some reason"
    by blast
  show ?thesis
    using r ExecuteCommand_invalid [OF r, of os clientKey] by (simp add: error_response_def)
qed

text \<open>
  Witness of C1: on the default executor, \<open>rm -rf /tmp/foo\<close> is refused by the blacklist
  and \<open>/tmp/script.sh\<close> by the allowed paths.
\<close>

theorem C1_validation_failure_is_refused_witness:
  "ExecuteCommand example_lib (example_os echo_result) default_executor
     (example_request ''rm -rf /tmp/foo'') ''default'' =
     (\<lparr>ExitCode = - 1, Stdout = [], Stderr = [],
       Error = ''command validation failed: command contains dangerous pattern: rm -rf'',
       Duration = 0\<rparr>, default_executor, []) \<and>
   ExecuteCommand example_lib (example_os echo_result) default_executor
     (example_request ''/tmp/script.sh'') ''default'' =
     (\<lparr>ExitCode = - 1, Stdout = [], Stderr = [],
       Error = ''command validation failed: command path not in allowed paths: /tmp'',
       Duration = 0\<rparr>, default_executor, [])"
proof -
  have h1: "list_ex (strings_Contains (Command (example_request ''rm -rf /tmp/foo'')))
              (blacklist default_executor)"
    by (simp add: example_defs)
  have v1: "ValidateCommand example_lib default_executor
              (Command (example_request ''rm -rf /tmp/foo'')) =
            Some ''command contains dangerous pattern: rm -rf''"
    by (simp add: ValidateCommand_def example_defs)
  have h2: "filepath_IsAbs example_lib (Command (example_request ''/tmp/script.sh'')) \<and>
            \<not> list_ex (strings_HasPrefix
                  (filepath_Dir example_lib (Command (example_request ''/tmp/script.sh''))))
                (allowedPaths default_executor)"
    by (simp add: example_defs)
  have v2: "ValidateCommand example_lib default_executor
              (Command (example_request ''/tmp/script.sh'')) =
            Some ''command path not in allowed paths: /tmp''"
    by (simp add: ValidateCommand_def example_defs)
  show ?thesis
    using C1_validation_failure_is_refused [of "example_request ''rm -rf /tmp/foo''"
        default_executor example_lib "example_os echo_result" "''default''"]
      C1_validation_failure_is_refused [of "example_request ''/tmp/script.sh''"
        default_executor example_lib "example_os echo_result" "''default''"]
      h1 h2 v1 v2
    by auto
qed

subsection \<open>Bounded output (C2)\<close>

text \<open>
  The buffer of a writer holds the first bytes of what was written, up to its capacity,
  and the output of a response is no longer than the capacity, counted as a natural
  number.
\<close>

lemma writer_keeps_first_bytes:
  "writer (Write_all (new_limitedWriter max_output) ps) =
     take (nat (min (int (length (concat ps))) max_output)) (concat ps)"
  by (simp add: Write_all_writer new_limitedWriter_def min_def)

lemma response_output_length:
  "length (Stdout (fst (ExecuteCommand lib os ce req clientKey))) \<le> nat (maxOutputSize ce) \<and>
   length (Stderr (fst (ExecuteCommand lib os ce req clientKey))) \<le> nat (maxOutputSize ce)"
proof (intro conjI)
  show "length (Stdout (fst (ExecuteCommand lib os ce req clientKey))) \<le> nat (maxOutputSize ce)"
    by (subst ExecuteCommand_response)
       (simp add: the_response_def error_response_def length_writer_new)
next
  show "length (Stderr (fst (ExecuteCommand lib os ce req clientKey))) \<le> nat (maxOutputSize ce)"
    by (subst ExecuteCommand_response)
       (simp add: the_response_def error_response_def length_writer_new)
qed

text \<open>
  Claim C2 says that the bytes beyond the capacity are dropped silently and that the
  output never exceeds \<open>max_output\<close> bytes. The code at the write that straddles the
  capacity: a writer of capacity 2 that receives the three bytes \<open>hi\<close>, line feed, keeps
  \<open>hi\<close> and returns the count 2 with a nil error, less than the 3 bytes it was given, so
  the caller is told that the write was short. The branch beside it, taken once the
  capacity is used up, returns the full length of what it drops: the next write of one
  byte returns 1. And a capacity of \<open>-5\<close>, which \<open>loadConfig\<close> accepts, keeps 0 bytes, which
  is more than \<open>-5\<close>.
\<close>

theorem C2_straddling_write_is_short:
  "Write (new_limitedWriter 2) [CHR ''h'', CHR ''i'', CHR 0x0A] =
     (2, \<lparr>writer = ''hi'', maxSize = 2, bytesLeft = 0\<rparr>) \<and>
   fst (Write (new_limitedWriter 2) [CHR ''h'', CHR ''i'', CHR 0x0A]) <
     int (length [CHR ''h'', CHR ''i'', CHR 0x0A]) \<and>
   Write \<lparr>writer = ''hi'', maxSize = 2, bytesLeft = 0\<rparr> ''x'' =
     (1, \<lparr>writer = ''hi'', maxSize = 2, bytesLeft = 0\<rparr>) \<and>
   writer (Write_all (new_limitedWriter (- 5)) [''hi'']) = [] \<and>
   - 5 < int (length (writer (Write_all (new_limitedWriter (- 5)) [''hi''])))"
  by (simp add: Write_def new_limitedWriter_def)

subsection \<open>The rate limiter (C3)\<close>

text \<open>
  Claim C3. \<open>checkRateLimit\<close> keeps the timestamps of the key that are less than the
  window old, accepts the call when fewer than \<open>rateLimit\<close> of them remain, and then stores
  them with the current time appended; it rejects the call otherwise and leaves the
  executor as it was. Hence, for a burst of \<open>2N\<close> calls with one key whose clock values lie
  pairwise less than a window apart, all timestamps recorded earlier for the key being
  at least a window old, the first \<open>N\<close> calls pass and the last \<open>N\<close> are rejected, \<open>N\<close> being
  the rate limit.
\<close>

theorem C3_rate_limiter_burst:
  "(fst (checkRateLimit lib now ce key) = None \<longleftrightarrow>
      int (length (filter (\<lambda>ts. now - ts < rateLimitWindow ce) (timestamps_of ce key)))
        < rateLimit ce) \<and>
   (fst (checkRateLimit lib now ce key) = None \<longrightarrow>
      snd (checkRateLimit lib now ce key) =
        ce\<lparr>rateLimitTracker := (rateLimitTracker ce)(key \<mapsto>
             filter (\<lambda>ts. now - ts < rateLimitWindow ce) (timestamps_of ce key) @ [now])\<rparr>) \<and>
   (fst (checkRateLimit lib now ce key) \<noteq> None \<longrightarrow>
      snd (checkRateLimit lib now ce key) = ce) \<and>
   (length nows = 2 * nat (rateLimit ce) \<and>
    (\<forall>t \<in> set nows. \<forall>t' \<in> set nows. t - t' < rateLimitWindow ce) \<and>
    (\<forall>ts \<in> set (timestamps_of ce key). \<forall>t \<in> set nows. rateLimitWindow ce \<le> t - ts) \<longrightarrow>
      map (\<lambda>err. err = None) (fst (checkRateLimits lib ce key nows)) =
        replicate (nat (rateLimit ce)) True @ replicate (nat (rateLimit ce)) False)"
proof (intro conjI impI)
  show "fst (checkRateLimit lib now ce key) = None \<longleftrightarrow>
      int (length (filter (\<lambda>ts. now - ts < rateLimitWindow ce) (timestamps_of ce key)))
        < rateLimit ce"
    by (rule checkRateLimit_passes_iff)
next
  assume "fst (checkRateLimit lib now ce key) = None"
  then show "snd (checkRateLimit lib now ce key) =
        ce\<lparr>rateLimitTracker := (rateLimitTracker ce)(key \<mapsto>
             filter (\<lambda>ts. now - ts < rateLimitWindow ce) (timestamps_of ce key) @ [now])\<rparr>"
    by (rule checkRateLimit_pass_state)
next
  assume "fst (checkRateLimit lib now ce key) \<noteq> None"
  then show "snd (checkRateLimit lib now ce key) = ce"
    by (rule checkRateLimit_reject_state)
next
  assume a: "length nows = 2 * nat (rateLimit ce) \<and>
    (\<forall>t \<in> set nows. \<forall>t' \<in> set nows. t - t' < rateLimitWindow ce) \<and>
    (\<forall>ts \<in> set (timestamps_of ce key). \<forall>t \<in> set nows. rateLimitWindow ce \<le> t - ts)"
  show "map (\<lambda>err. err = None) (fst (checkRateLimits lib ce key nows)) =
        replicate (nat (rateLimit ce)) True @ replicate (nat (rateLimit ce)) False"
  proof (cases "nows = []")
    case True
    then show ?thesis using a by simp
  next
    case False
    then obtain t0 where t0: "t0 \<in> set nows"
      by (cases nows) auto
    have dead: "\<forall>ts \<in> set (timestamps_of ce key). \<forall>t \<in> set nows. \<not> t - ts < rateLimitWindow ce"
      using a by fastforce
    then have inv: "\<forall>ts \<in> set (timestamps_of ce key).
        (\<forall>t \<in> set nows. t - ts < rateLimitWindow ce) \<or>
        (\<forall>t \<in> set nows. \<not> t - ts < rateLimitWindow ce)"
      by blast
    have "filter (\<lambda>ts. \<forall>t \<in> set nows. t - ts < rateLimitWindow ce) (timestamps_of ce key) = []"
      using dead t0 by (auto simp: filter_empty_conv)
    then have live: "length (filter (\<lambda>ts. \<forall>t \<in> set nows. t - ts < rateLimitWindow ce)
                       (timestamps_of ce key)) = 0"
      by simp
    have win: "\<forall>t \<in> set nows. \<forall>t' \<in> set nows. t - t' < rateLimitWindow ce"
      using a by blast
    show ?thesis
      using burst_general [OF inv subset_refl win, of lib] a unfolding live by simp
  qed
qed

text \<open>
  Witness of C3: with a rate limit of 2, a window of one minute and one timestamp that
  is 100 seconds old, of four calls one second apart the first two pass and the last two
  are rejected.
\<close>

theorem C3_rate_limiter_burst_witness:
  "map (\<lambda>err. err = None)
     (fst (checkRateLimits example_lib expired_executor ''default''
        [0, time_Second, 2 * time_Second, 3 * time_Second])) = [True, True, False, False]"
proof -
  have h: "length [0, time_Second, 2 * time_Second, 3 * time_Second] =
             2 * nat (rateLimit expired_executor) \<and>
           (\<forall>t \<in> set [0, time_Second, 2 * time_Second, 3 * time_Second].
              \<forall>t' \<in> set [0, time_Second, 2 * time_Second, 3 * time_Second].
                t - t' < rateLimitWindow expired_executor) \<and>
           (\<forall>ts \<in> set (timestamps_of expired_executor ''default'').
              \<forall>t \<in> set [0, time_Second, 2 * time_Second, 3 * time_Second].
                rateLimitWindow expired_executor \<le> t - ts)"
    by (simp add: expired_executor_def timestamps_of_def example_defs)
  have n: "nat (rateLimit expired_executor) = 2"
    by (simp add: expired_executor_def)
  show ?thesis
    using C3_rate_limiter_burst [of example_lib 0 expired_executor "''default''"
        "[0, time_Second, 2 * time_Second, 3 * time_Second]"] h
    by (simp add: n numeral_2_eq_2)
qed

subsection \<open>The history (C4)\<close>

text \<open>
  Claim C4. The history of an executor made by the constructor has at most 100 entries
  after any sequence of calls of \<open>ExecuteCommand\<close>, and one call keeps that bound. A call
  that reaches the execution stage appends exactly one entry, with the exit code of its
  response (\<open>-2\<close> for a run that timed out), and keeps the last 100 entries; a call refused
  by validation, by the rate limit, by the semaphore or by the check of the environment
  leaves the history as it was.
\<close>

theorem C4_history_is_bounded_and_complete:
  "(NewCommandExecutor lib getenv = Some ce0 \<longrightarrow>
      length (history (ExecuteCommands lib ce0 calls)) \<le> 100) \<and>
   (length (history ce) \<le> 100 \<longrightarrow>
      length (history (fst (snd (ExecuteCommand lib os ce req clientKey)))) \<le> 100) \<and>
   history (fst (snd (ExecuteCommand lib os ce req clientKey))) =
     (if reaches_execution lib os ce req clientKey
      then most_recent 100
             (history ce @
              [\<lparr>hist_Command = Command req, hist_Args = Args req,
                hist_Timestamp = now_start os, hist_Duration = since_start os,
                hist_ExitCode = ExitCode (fst (ExecuteCommand lib os ce req clientKey)),
                hist_Workdir = Workdir req\<rparr>])
      else history ce)"
proof (intro conjI impI)
  assume "NewCommandExecutor lib getenv = Some ce0"
  then have "length (history ce0) \<le> 100"
    by (simp add: NewCommandExecutor_history)
  then show "length (history (ExecuteCommands lib ce0 calls)) \<le> 100"
    by (rule ExecuteCommands_history_bound)
next
  assume "length (history ce) \<le> 100"
  then show "length (history (fst (snd (ExecuteCommand lib os ce req clientKey)))) \<le> 100"
    by (rule ExecuteCommand_history_bound)
next
  show "history (fst (snd (ExecuteCommand lib os ce req clientKey))) =
     (if reaches_execution lib os ce req clientKey
      then most_recent 100
             (history ce @
              [\<lparr>hist_Command = Command req, hist_Args = Args req,
                hist_Timestamp = now_start os, hist_Duration = since_start os,
                hist_ExitCode = ExitCode (fst (ExecuteCommand lib os ce req clientKey)),
                hist_Workdir = Workdir req\<rparr>])
      else history ce)"
    using ExecuteCommand_history [of lib os ce req clientKey] by (simp add: the_entry_def)
qed

text \<open>
  Witness of C4: on the default executor, a run of \<open>/bin/echo\<close> that times out leaves one
  entry with exit code \<open>-2\<close>, and the refused \<open>rm -rf /tmp/foo\<close> leaves none.
\<close>

theorem C4_history_is_bounded_and_complete_witness:
  "length (history (ExecuteCommands example_lib default_executor
      [(example_os timeout_result, example_request ''/bin/echo'', ''default'')])) \<le> 100 \<and>
   history (fst (snd (ExecuteCommand example_lib (example_os timeout_result) default_executor
      (example_request ''/bin/echo'') ''default''))) =
     [\<lparr>hist_Command = ''/bin/echo'', hist_Args = [], hist_Timestamp = 0,
       hist_Duration = 2500000, hist_ExitCode = - 2, hist_Workdir = []\<rparr>] \<and>
   history (fst (snd (ExecuteCommand example_lib (example_os timeout_result) default_executor
      (example_request ''rm -rf /tmp/foo'') ''default''))) = []"
proof -
  have n: "NewCommandExecutor example_lib (\<lambda>name. None) = Some default_executor"
    by (rule NewCommandExecutor_default)
  have l: "length (history default_executor) \<le> 100"
    by (simp add: default_executor_def)
  have r: "reaches_execution example_lib (example_os timeout_result) default_executor
             (example_request ''/bin/echo'') ''default''"
    by (rule reaches_echo)
  have x: "ExitCode (fst (ExecuteCommand example_lib (example_os timeout_result)
             default_executor (example_request ''/bin/echo'') ''default'')) = - 2"
    using ExecuteCommand_executed [OF r]
    by (simp add: the_response_def example_os_def timeout_result_def)
  have v: "ValidateCommand example_lib default_executor
             (Command (example_request ''rm -rf /tmp/foo'')) \<noteq> None"
    by (simp add: ValidateCommand_def example_defs)
  then have nr: "\<not> reaches_execution example_lib (example_os timeout_result) default_executor
             (example_request ''rm -rf /tmp/foo'') ''default''"
    by (simp add: reaches_execution_def)
  have h: "history default_executor = []"
    by (simp add: default_executor_def)
  show ?thesis
    using C4_history_is_bounded_and_complete [of example_lib "\<lambda>name. None" default_executor
        "[(example_os timeout_result, example_request ''/bin/echo'', ''default'')]"
        default_executor "example_os timeout_result" "example_request ''/bin/echo''"
        "''default''"]
      C4_history_is_bounded_and_complete [of example_lib "\<lambda>name. None" default_executor
        "[]" default_executor "example_os timeout_result"
        "example_request ''rm -rf /tmp/foo''" "''default''"]
      n l r x nr h
    by (simp add: most_recent_def example_request_def example_os_def)
qed

subsection \<open>The timeout (C5)\<close>

text \<open>
  Claim C5. The timeout of the context under which a command runs is 30 seconds when the
  requested timeout is zero or negative, 300 seconds when it exceeds 300, and the
  requested number of seconds otherwise; it lies between 1 and 300 seconds. A call that
  reaches the execution stage runs exactly one command.
\<close>

theorem C5_timeout_is_clamped:
  "(let effective = (if Timeout req \<le> 0 then 30 else if 300 < Timeout req then 300
                     else Timeout req)
    in 1 \<le> effective \<and> effective \<le> 300 \<and>
       (\<forall>cmd \<in> set (snd (snd (ExecuteCommand lib os ce req clientKey))).
          cmd_Timeout cmd = effective * time_Second) \<and>
       (reaches_execution lib os ce req clientKey \<longrightarrow>
          (\<exists>cmd. snd (snd (ExecuteCommand lib os ce req clientKey)) = [cmd])))"
  by (simp add: ExecuteCommand_runs the_cmd_def clamp_timeout_def Let_def)

text \<open>
  Witness of C5: a request with timeout 0 runs its command under a timeout of 30
  seconds.
\<close>

theorem C5_timeout_is_clamped_witness:
  "snd (snd (ExecuteCommand example_lib (example_os echo_result) default_executor
      (example_request ''/bin/echo'') ''default'')) =
     [the_cmd (example_request ''/bin/echo'') None] \<and>
   cmd_Timeout (the_cmd (example_request ''/bin/echo'') None) = 30 * time_Second"
proof -
  have r: "reaches_execution example_lib (example_os echo_result) default_executor
             (example_request ''/bin/echo'') ''default''"
    by (rule reaches_echo)
  have t: "Timeout (example_request ''/bin/echo'') = 0"
    by (simp add: example_request_def)
  have c: "snd (snd (ExecuteCommand example_lib (example_os echo_result) default_executor
      (example_request ''/bin/echo'') ''default'')) =
     [the_cmd (example_request ''/bin/echo'') None]"
    using ExecuteCommand_executed [OF r]
    by (simp add: the_env_def example_request_def)
  show ?thesis
    using C5_timeout_is_clamped [of "example_request ''/bin/echo''" example_lib
        "example_os echo_result" default_executor "''default''"] r
    unfolding c by (simp add: t Let_def)
qed

subsection \<open>Reading the history (C6)\<close>

text \<open>
  Claim C6, as stated, says that \<open>GetHistory(limit)\<close> returns the most recent
  \<open>min(limit, size)\<close> entries for every integer \<open>limit\<close>. Counterexample to C6: with one entry
  in the history, \<open>GetHistory(0)\<close> returns that entry, and not the most recent
  \<open>min(0, 1) = 0\<close> entries.
\<close>

theorem C6_GetHistory_counterexample:
  "GetHistory (default_executor\<lparr>history := [example_entry]\<rparr>) 0 \<noteq>
     most_recent
       (nat (min 0 (int (length (history (default_executor\<lparr>history := [example_entry]\<rparr>))))))
       (history (default_executor\<lparr>history := [example_entry]\<rparr>))"
  by (simp add: GetHistory_def most_recent_def)

text \<open>
  Claim C6, amended. \<open>GetHistory(limit)\<close> returns the most recent \<open>min(limit, size)\<close> entries
  of the history when \<open>limit\<close> is at least 1, and the whole history when \<open>limit\<close> is zero or
  negative, in the order of the history (oldest first).
\<close>

theorem C6_GetHistory_most_recent:
  "GetHistory ce limit =
     (if 1 \<le> limit
      then most_recent (nat (min limit (int (length (history ce))))) (history ce)
      else history ce)"
  by (auto simp: GetHistory_def most_recent_def Let_def min_def nat_diff_distrib'
      intro!: arg_cong [where f = "\<lambda>n. drop n (history ce)"])

text \<open>
  Witness of the amended C6: of three entries, limit 2 returns the last two and limit
  \<open>-1\<close> returns all three, oldest first.
\<close>

theorem C6_GetHistory_most_recent_witness:
  "GetHistory (default_executor\<lparr>history :=
      [example_entry\<lparr>hist_ExitCode := 1\<rparr>, example_entry\<lparr>hist_ExitCode := 2\<rparr>,
       example_entry\<lparr>hist_ExitCode := 3\<rparr>]\<rparr>) 2 =
     [example_entry\<lparr>hist_ExitCode := 2\<rparr>, example_entry\<lparr>hist_ExitCode := 3\<rparr>] \<and>
   GetHistory (default_executor\<lparr>history :=
      [example_entry\<lparr>hist_ExitCode := 1\<rparr>, example_entry\<lparr>hist_ExitCode := 2\<rparr>,
       example_entry\<lparr>hist_ExitCode := 3\<rparr>]\<rparr>) (- 1) =
     [example_entry\<lparr>hist_ExitCode := 1\<rparr>, example_entry\<lparr>hist_ExitCode := 2\<rparr>,
      example_entry\<lparr>hist_ExitCode := 3\<rparr>]"
  using C6_GetHistory_most_recent [of "default_executor\<lparr>history :=
      [example_entry\<lparr>hist_ExitCode := 1\<rparr>, example_entry\<lparr>hist_ExitCode := 2\<rparr>,
       example_entry\<lparr>hist_ExitCode := 3\<rparr>]\<rparr>" 2]
    C6_GetHistory_most_recent [of "default_executor\<lparr>history :=
      [example_entry\<lparr>hist_ExitCode := 1\<rparr>, example_entry\<lparr>hist_ExitCode := 2\<rparr>,
       example_entry\<lparr>hist_ExitCode := 3\<rparr>]\<rparr>" "- 1"]
  by (simp add: most_recent_def)

subsection \<open>The injection scenario (C7)\<close>

text \<open>
  Claim C7, as stated, says that the error for the command \<open>/bin/ls; rm -rf /\<close> contains
  \<open>injection pattern\<close>. Counterexample to C7: on the default executor the error of the
  response does not contain it, because the blacklist is scanned first and the command
  contains \<open>rm -rf\<close>.
\<close>

theorem C7_injection_example_counterexample:
  "\<not> strings_Contains
       (Error (fst (ExecuteCommand example_lib (example_os echo_result) default_executor
          (example_request ''/bin/ls; rm -rf /'') ''default'')))
       ''injection pattern''"
proof -
  have b: "blacklist default_executor = dangerous_blacklist"
    by (simp add: default_executor_def)
  have "ValidateCommand example_lib default_executor
          (Command (example_request ''/bin/ls; rm -rf /'')) =
          Some ''command contains dangerous pattern: rm -rf''"
    using Validate_injection_example [OF b] by (simp add: example_request_def)
  from ExecuteCommand_invalid [OF this]
  have "Error (fst (ExecuteCommand example_lib (example_os echo_result) default_executor
          (example_request ''/bin/ls; rm -rf /'') ''default'')) =
        ''command validation failed: command contains dangerous pattern: rm -rf''"
    by (simp add: error_response_def)
  then show ?thesis
    by (simp add: strings_HasPrefix_def)
qed

text \<open>
  Claim C7, amended. Every executor made by the constructor has the fixed blacklist, and
  on an executor with that blacklist the request with command \<open>/bin/ls; rm -rf /\<close> gets the
  response with exit code \<open>-1\<close> and the error
  \<open>command validation failed: command contains dangerous pattern: rm -rf\<close>, which contains
  \<open>dangerous pattern\<close>; no command is run.
\<close>

theorem C7_injection_example_is_blacklisted:
  "(NewCommandExecutor lib getenv = Some ce0 \<longrightarrow> blacklist ce0 = dangerous_blacklist) \<and>
   (blacklist ce = dangerous_blacklist \<and> Command req = ''/bin/ls; rm -rf /'' \<longrightarrow>
      ExecuteCommand lib os ce req clientKey =
        (\<lparr>ExitCode = - 1, Stdout = [], Stderr = [],
          Error = ''command validation failed: command contains dangerous pattern: rm -rf'',
          Duration = 0\<rparr>, ce, []) \<and>
      strings_Contains (Error (fst (ExecuteCommand lib os ce req clientKey)))
        ''dangerous pattern'')"
proof (intro conjI impI)
  assume "NewCommandExecutor lib getenv = Some ce0"
  then show "blacklist ce0 = dangerous_blacklist"
    by (rule NewCommandExecutor_blacklist)
next
  assume a: "blacklist ce = dangerous_blacklist \<and> Command req = ''/bin/ls; rm -rf /''"
  then have "ValidateCommand lib ce (Command req) =
               Some ''command contains dangerous pattern: rm -rf''"
    using Validate_injection_example [of ce lib] by simp
  from ExecuteCommand_invalid [OF this]
  have e: "ExecuteCommand lib os ce req clientKey =
        (\<lparr>ExitCode = - 1, Stdout = [], Stderr = [],
          Error = ''command validation failed: command contains dangerous pattern: rm -rf'',
          Duration = 0\<rparr>, ce, [])"
    by (simp add: error_response_def)
  then show "ExecuteCommand lib os ce req clientKey =
        (\<lparr>ExitCode = - 1, Stdout = [], Stderr = [],
          Error = ''command validation failed: command contains dangerous pattern: rm -rf'',
          Duration = 0\<rparr>, ce, [])" .
  show "strings_Contains (Error (fst (ExecuteCommand lib os ce req clientKey)))
        ''dangerous pattern''"
    unfolding e by (simp add: strings_HasPrefix_def)
qed

text \<open>
  Witness of the amended C7: the default executor, which the constructor returns, has the
  fixed blacklist and answers the request as stated.
\<close>

theorem C7_injection_example_is_blacklisted_witness:
  "blacklist default_executor = dangerous_blacklist \<and>
   ExecuteCommand example_lib (example_os echo_result) default_executor
     (example_request ''/bin/ls; rm -rf /'') ''default'' =
     (\<lparr>ExitCode = - 1, Stdout = [], Stderr = [],
       Error = ''command validation failed: command contains dangerous pattern: rm -rf'',
       Duration = 0\<rparr>, default_executor, [])"
proof -
  have n: "NewCommandExecutor example_lib (\<lambda>name. None) = Some default_executor"
    by (rule NewCommandExecutor_default)
  have c: "Command (example_request ''/bin/ls; rm -rf /'') = ''/bin/ls; rm -rf /''"
    by (simp add: example_request_def)
  from C7_injection_example_is_blacklisted [of example_lib "\<lambda>name. None" default_executor
      default_executor "example_request ''/bin/ls; rm -rf /''" "example_os echo_result"
      "''default''"] n c
  show ?thesis
    by blast
qed

subsection \<open>The concurrency limit (C8)\<close>

text \<open>
  Claim C8. When the semaphore holds no token, a request that passes validation and the
  rate limit gets the response with exit code \<open>-1\<close> and the error
  \<open>maximum concurrent command execution limit reached\<close>; no command is run, the history
  is unchanged and the semaphore still holds no token. The call does not wait: the
  \<open>select\<close> has a default branch, and the model is a total function.
\<close>

theorem C8_concurrency_limit_is_not_blocking:
  assumes "ValidateCommand lib ce (Command req) = None"
    and "fst (checkRateLimit lib (now_rate os) ce clientKey) = None"
    and "concurrentSemaphore ce = 0"
  shows "fst (ExecuteCommand lib os ce req clientKey) =
           \<lparr>ExitCode = - 1, Stdout = [], Stderr = [],
            Error = ''maximum concurrent command execution limit reached'', Duration = 0\<rparr> \<and>
         snd (snd (ExecuteCommand lib os ce req clientKey)) = [] \<and>
         history (fst (snd (ExecuteCommand lib os ce req clientKey))) = history ce \<and>
         concurrentSemaphore (fst (snd (ExecuteCommand lib os ce req clientKey))) = 0"
proof -
  let ?ce1 = "snd (checkRateLimit lib (now_rate os) ce clientKey)"
  have r: "checkRateLimit lib (now_rate os) ce clientKey = (None, ?ce1)"
    using assms(2) by (simp add: prod_eq_iff)
  have s: "concurrentSemaphore ?ce1 = 0"
    using assms(3) by (simp add: checkRateLimit_semaphore)
  show ?thesis
    using ExecuteCommand_busy [OF assms(1) r s] s
    by (simp add: error_response_def checkRateLimit_history)
qed

text \<open>
  Witness of C8: the default executor with an empty semaphore refuses \<open>/bin/echo\<close>.
\<close>

theorem C8_concurrency_limit_is_not_blocking_witness:
  "fst (ExecuteCommand example_lib (example_os echo_result)
          (default_executor\<lparr>concurrentSemaphore := 0\<rparr>)
          (example_request ''/bin/echo'') ''default'') =
     \<lparr>ExitCode = - 1, Stdout = [], Stderr = [],
      Error = ''maximum concurrent command execution limit reached'', Duration = 0\<rparr> \<and>
   snd (snd (ExecuteCommand example_lib (example_os echo_result)
          (default_executor\<lparr>concurrentSemaphore := 0\<rparr>)
          (example_request ''/bin/echo'') ''default'')) = []"
proof -
  have v: "ValidateCommand example_lib (default_executor\<lparr>concurrentSemaphore := 0\<rparr>)
             (Command (example_request ''/bin/echo'')) = None"
    by (simp add: ValidateCommand_def example_defs)
  have r: "fst (checkRateLimit example_lib (now_rate (example_os echo_result))
             (default_executor\<lparr>concurrentSemaphore := 0\<rparr>) ''default'') = None"
    by (simp add: checkRateLimit_def example_defs)
  have s: "concurrentSemaphore (default_executor\<lparr>concurrentSemaphore := 0\<rparr>) = 0"
    by simp
  from C8_concurrency_limit_is_not_blocking [OF v r s]
  show ?thesis
    by simp
qed

subsection \<open>Command not found (C9)\<close>

text \<open>
  Claim C9 says that a request for an executable that does not exist gets exit code 127
  and the error \<open>command not found\<close>. The code on a host without any executable: the
  executor that the constructor returns for \<open>COMMAND_WHITELIST=allow_all\<close> lets the bare
  name \<open>nosuchcmd\<close> pass validation and runs it; the run fails with the error of the
  lookup, which the test \<open>os.IsNotExist\<close> does not recognise, and the response has exit
  code \<open>-1\<close> and the message of that error. The absolute path \<open>/bin/echo\<close>, which does not
  exist either, gets 127 and \<open>command not found\<close> from the default executor.
\<close>

theorem C9_bare_name_not_found_gives_minus_one:
  "NewCommandExecutor example_lib allow_all_env =
     Some (default_executor\<lparr>whitelist := None\<rparr>) \<and>
   fst (ExecuteCommand example_lib empty_host (default_executor\<lparr>whitelist := None\<rparr>)
          (example_request ''nosuchcmd'') ''default'') =
     \<lparr>ExitCode = - 1, Stdout = [], Stderr = [],
      Error = ''exec: '' @ [CHR 0x22] @ ''nosuchcmd'' @ [CHR 0x22] @
              '': executable file not found in $PATH'',
      Duration = 2\<rparr> \<and>
   snd (snd (ExecuteCommand example_lib empty_host (default_executor\<lparr>whitelist := None\<rparr>)
          (example_request ''nosuchcmd'') ''default'')) =
     [the_cmd (example_request ''nosuchcmd'') None] \<and>
   fst (ExecuteCommand example_lib empty_host default_executor
          (example_request ''/bin/echo'') ''default'') =
     \<lparr>ExitCode = 127, Stdout = [], Stderr = [], Error = ''command not found'',
      Duration = 2\<rparr>"
proof (intro conjI)
  show "NewCommandExecutor example_lib allow_all_env =
          Some (default_executor\<lparr>whitelist := None\<rparr>)"
    by (simp add: NewCommandExecutor_def loadConfig_def allow_all_env_def default_executor_def)
next
  have r: "reaches_execution example_lib empty_host (default_executor\<lparr>whitelist := None\<rparr>)
             (example_request ''nosuchcmd'') ''default''"
    by (simp add: reaches_execution_def ValidateCommand_def checkRateLimit_def empty_host_def
        example_defs)
  have e: "the_env empty_host (example_request ''nosuchcmd'') = None"
    by (simp add: the_env_def example_request_def)
  show "fst (ExecuteCommand example_lib empty_host (default_executor\<lparr>whitelist := None\<rparr>)
          (example_request ''nosuchcmd'') ''default'') =
     \<lparr>ExitCode = - 1, Stdout = [], Stderr = [],
      Error = ''exec: '' @ [CHR 0x22] @ ''nosuchcmd'' @ [CHR 0x22] @
              '': executable file not found in $PATH'',
      Duration = 2\<rparr>"
    unfolding ExecuteCommand_executed [OF r] e
    by (simp add: the_response_def the_cmd_def empty_host_def example_request_def
        new_limitedWriter_def Milliseconds_def)
  show "snd (snd (ExecuteCommand example_lib empty_host
          (default_executor\<lparr>whitelist := None\<rparr>) (example_request ''nosuchcmd'')
          ''default'')) =
     [the_cmd (example_request ''nosuchcmd'') None]"
    unfolding ExecuteCommand_executed [OF r] e by simp
next
  have r: "reaches_execution example_lib empty_host default_executor
             (example_request ''/bin/echo'') ''default''"
    by (simp add: reaches_execution_def ValidateCommand_def checkRateLimit_def empty_host_def
        example_defs)
  have e: "the_env empty_host (example_request ''/bin/echo'') = None"
    by (simp add: the_env_def example_request_def)
  show "fst (ExecuteCommand example_lib empty_host default_executor
          (example_request ''/bin/echo'') ''default'') =
     \<lparr>ExitCode = 127, Stdout = [], Stderr = [], Error = ''command not found'',
      Duration = 2\<rparr>"
    unfolding ExecuteCommand_executed [OF r] e
    by (simp add: the_response_def the_cmd_def empty_host_def example_request_def
        new_limitedWriter_def Milliseconds_def)
qed

subsection \<open>Commands that are not absolute paths (C10)\<close>

text \<open>
  Claim C10. For a command that is not an absolute path, the result of \<open>ValidateCommand\<close>
  depends neither on the allowed paths nor on \<open>filepath.Dir\<close>; when moreover the whitelist
  is nil and the command contains no substring of the blacklist and no injection
  pattern, the command passes validation. \<open>loadConfig\<close> sets the whitelist to nil when
  \<open>COMMAND_WHITELIST\<close> is \<open>allow_all\<close>.
\<close>

theorem C10_relative_command_skips_path_check:
  "(\<not> filepath_IsAbs lib command \<longrightarrow>
      ValidateCommand (lib\<lparr>filepath_Dir := dir\<rparr>) (ce\<lparr>allowedPaths := paths\<rparr>) command =
      ValidateCommand lib ce command) \<and>
   (\<not> filepath_IsAbs lib command \<and> whitelist ce = None \<and>
    \<not> list_ex (strings_Contains command) (blacklist ce) \<and>
    \<not> list_ex (strings_Contains command) injectionPatterns \<longrightarrow>
      ValidateCommand lib ce command = None) \<and>
   (getenv ''COMMAND_WHITELIST'' = Some ''allow_all'' \<longrightarrow>
      whitelist (loadConfig lib getenv ce) = None)"
proof (intro conjI impI)
  assume "\<not> filepath_IsAbs lib command"
  then show "ValidateCommand (lib\<lparr>filepath_Dir := dir\<rparr>) (ce\<lparr>allowedPaths := paths\<rparr>) command =
      ValidateCommand lib ce command"
    by (simp add: ValidateCommand_def split: option.split)
next
  assume "\<not> filepath_IsAbs lib command \<and> whitelist ce = None \<and>
    \<not> list_ex (strings_Contains command) (blacklist ce) \<and>
    \<not> list_ex (strings_Contains command) injectionPatterns"
  then show "ValidateCommand lib ce command = None"
    using ValidateCommand_fails_iff [of lib ce command] by simp
next
  assume "getenv ''COMMAND_WHITELIST'' = Some ''allow_all''"
  then show "whitelist (loadConfig lib getenv ce) = None"
    by (simp add: loadConfig_def)
qed

text \<open>
  Witness of C10: \<open>ls\<close> passes validation on an executor with a nil whitelist and no
  allowed path at all.
\<close>

theorem C10_relative_command_skips_path_check_witness:
  "ValidateCommand (example_lib\<lparr>filepath_Dir := (\<lambda>path. ''/tmp'')\<rparr>)
     (default_executor\<lparr>whitelist := None, allowedPaths := []\<rparr>) ''ls'' = None \<and>
   whitelist (loadConfig example_lib allow_all_env
     (default_executor\<lparr>whitelist := None\<rparr>)) = None"
proof -
  have a: "\<not> filepath_IsAbs example_lib ''ls''"
    by (simp add: example_defs)
  have h: "\<not> filepath_IsAbs example_lib ''ls'' \<and>
           whitelist (default_executor\<lparr>whitelist := None\<rparr>) = None \<and>
           \<not> list_ex (strings_Contains ''ls'') (blacklist (default_executor\<lparr>whitelist := None\<rparr>)) \<and>
           \<not> list_ex (strings_Contains ''ls'') injectionPatterns"
    by (simp add: example_defs)
  have e: "allow_all_env ''COMMAND_WHITELIST'' = Some ''allow_all''"
    by (simp add: allow_all_env_def)
  from C10_relative_command_skips_path_check [where lib = example_lib and command = "''ls''"
      and dir = "\<lambda>path. ''/tmp''" and ce = "default_executor\<lparr>whitelist := None\<rparr>"
      and paths = "[]" and getenv = allow_all_env] a h e
  show ?thesis
    by simp
qed

end
